theory Spec2Isabelle
  imports Main "HOL-Library.Sublist"
begin

section \<open>Python values and library calls used by move.py\<close>

text \<open>
  The flow in \<^verbatim>\<open>orchestration/flows/bl832/move.py\<close> works on Python strings.
  They are modelled as \<open>string\<close>; every separator the code looks for is ASCII, so
  the byte view and the code-point view split a path at the same places.

  Exceptions are values. \<open>IndexError\<close>, \<open>KeyError\<close>, \<open>ValueError\<close> and
  \<open>OverflowError\<close> are the built-in exceptions that statements of move.py itself can
  raise; \<open>Raised cls\<close> is an exception of class \<open>cls\<close> coming out of a collaborator
  (Globus, SciCat, Prefect), whose code is not part of move.py.
\<close>

datatype error = IndexError | KeyError string | ValueError | OverflowError | Raised string

text \<open>\<^verbatim>\<open>s.find(sub)\<close>: the index of the first occurrence, \<open>None\<close> for -1.\<close>

fun find_str :: "string \<Rightarrow> string \<Rightarrow> nat option" where
  "find_str sub [] = (if sub = [] then Some 0 else None)"
| "find_str sub (ch # s) =
     (if prefix sub (ch # s) then Some 0 else map_option Suc (find_str sub s))"

lemma find_str_bound: "find_str sub s = Some i \<Longrightarrow> i + length sub \<le> length s"
proof (induction s arbitrary: i)
  case Nil
  then show ?case by (simp split: if_splits)
next
  case (Cons ch s)
  show ?case
  proof (cases "prefix sub (ch # s)")
    case True
    with Cons.prems have "i = 0" by simp
    with prefix_length_le [OF True] show ?thesis by simp
  next
    case False
    with Cons.prems obtain k where "find_str sub s = Some k" "i = Suc k" by auto
    with Cons.IH show ?thesis by fastforce
  qed
qed

text \<open>
  \<^verbatim>\<open>s.split(sep)\<close> with a non-empty separator: scan from the left, cut at each
  occurrence found by the search, resume behind it, and end with the remainder
  (CPython's \<^verbatim>\<open>stringlib split\<close>). \<open>split_from\<close> is the scanning loop; the
  empty separator, which Python rejects with ValueError, is handled by \<open>str_split\<close>.
\<close>

function split_from :: "string \<Rightarrow> string \<Rightarrow> string list" where
  "split_from sep s =
     (if sep = [] then [s]
      else case find_str sep s of
             None \<Rightarrow> [s]
           | Some i \<Rightarrow> take i s # split_from sep (drop (i + length sep) s))"
  by pat_completeness auto
termination
proof (relation "measure (\<lambda>(sep, s). length s)")
  show "wf (measure (\<lambda>(sep, s). length s))" by simp
next
  fix sep s :: string and i :: nat
  assume "sep \<noteq> []" and "find_str sep s = Some i"
  then have "i + length sep \<le> length s" and "0 < length sep"
    by (simp_all add: find_str_bound)
  then have "length s - (i + length sep) < length s"
    by arith
  then show "((sep, drop (i + length sep) s), (sep, s)) \<in> measure (\<lambda>(sep, s). length s)"
    by simp
qed

declare split_from.simps [simp del]

definition str_split :: "string \<Rightarrow> string \<Rightarrow> error + string list" where
  "str_split s sep = (if sep = [] then Inl ValueError else Inr (split_from sep s))"

text \<open>\<^verbatim>\<open>xs[i]\<close> for a non-negative index: IndexError out of range.\<close>

definition list_item :: "'a list \<Rightarrow> nat \<Rightarrow> error + 'a" where
  "list_item xs i = (if i < length xs then Inr (xs ! i) else Inl IndexError)"

text \<open>\<^verbatim>\<open>d[k]\<close> on a dict: KeyError when the key is missing.\<close>

definition dict_item :: "(string \<rightharpoonup> 'v) \<Rightarrow> string \<Rightarrow> error + 'v" where
  "dict_item d k = (case d k of None \<Rightarrow> Inl (KeyError k) | Some v \<Rightarrow> Inr v)"

text \<open>
  \<^verbatim>\<open>os.path.join(a, b)\<close> of the standard library (posixpath) for two arguments:
  an absolute \<open>b\<close> replaces \<open>a\<close>; otherwise \<open>b\<close> is appended, with a separator
  unless \<open>a\<close> is empty or already ends with one.
\<close>

definition path_join :: "string \<Rightarrow> string \<Rightarrow> string" where
  "path_join a b =
     (if prefix ''/'' b then b
      else if a = [] \<or> suffix ''/'' a then a @ b
      else a @ ''/'' @ b)"

text \<open>
  \<^verbatim>\<open>Path(p).name\<close> of pathlib on POSIX: the last component of the path, where
  empty components and \<^verbatim>\<open>.\<close> components do not count; the empty string when no
  component is left.
\<close>

definition path_name :: "string \<Rightarrow> string" where
  "path_name p =
     (let parts = filter (\<lambda>part. part \<noteq> [] \<and> part \<noteq> ''.'') (split_from ''/'' p)
      in if parts = [] then [] else last parts)"

text \<open>
  \<^verbatim>\<open>datetime.timedelta(days=n)\<close>: the day count is kept as it is, and a count
  beyond 999999999 in magnitude raises OverflowError.
\<close>

datatype timedelta = Timedelta (days: int)

definition timedelta_days :: "int \<Rightarrow> error + timedelta" where
  "timedelta_days n = (if \<bar>n\<bar> \<le> 999999999 then Inr (Timedelta n) else Inl OverflowError)"

section \<open>Line 117: the relative path\<close>

text \<open>\<^verbatim>\<open>relative_path = file_path.split("/global")[1]\<close>\<close>

definition relative_path_of :: "string \<Rightarrow> error + string" where
  "relative_path_of file_path =
     (case str_split file_path ''/global'' of
        Inl e \<Rightarrow> Inl e
      | Inr parts \<Rightarrow> list_item parts 1)"

section \<open>Collaborators, configuration and the trace of a run\<close>

text \<open>
  Modelled from the spec: the class \<^verbatim>\<open>GlobusEndpoint\<close> is declared in
  \<^verbatim>\<open>orchestration/globus.py\<close>. An endpoint is a root path prefix and a
  transfer-system identity; move.py reads only \<^verbatim>\<open>root_path\<close>.
\<close>

record endpoint =
  root_path :: string
  identity :: string

text \<open>
  Modelled from the spec: \<^verbatim>\<open>Config832\<close> is declared in
  \<^verbatim>\<open>orchestration/flows/bl832/config.py\<close>. move.py reads the three endpoints
  and the dict \<^verbatim>\<open>scicat\<close>; the transfer client \<^verbatim>\<open>tc\<close> is only handed on
  to \<^verbatim>\<open>start_transfer\<close> and is part of that collaborator here.
\<close>

record config832 =
  spot832 :: endpoint
  data832 :: endpoint
  nersc832 :: endpoint
  scicat :: "string \<rightharpoonup> string"

text \<open>
  Modelled from the spec: what \<^verbatim>\<open>start_transfer\<close> of
  \<^verbatim>\<open>orchestration/globus.py\<close> returns, the tagged transfer outcome.
\<close>

datatype transfer_outcome = Succeeded | TimedOut | Failed string

text \<open>
  One event per call that leaves move.py, with the arguments of the call and with what
  came back: \<open>Inr\<close> a returned value, \<open>Inl\<close> a raised exception.
\<close>

datatype event =
    StartTransfer endpoint string endpoint string nat "error + transfer_outcome"
  | SecretLoad string "error + string"
  | SubmitIngest string string string string "error + string"
  | JSONLoad string "error + (string \<rightharpoonup> int)"
  | SchedulePrefectFlow string string "(string \<times> string) list" timedelta "error + unit"

text \<open>
  The collaborators are parameters of the model: \<^verbatim>\<open>start_transfer\<close>,
  \<^verbatim>\<open>Secret.load(...).get()\<close>, \<^verbatim>\<open>scicat.submit_ingest\<close>,
  \<^verbatim>\<open>JSON.load(...).value\<close> and \<^verbatim>\<open>schedule_prefect_flow\<close>. Each either
  returns or raises. The first argument is the number of calls made so far in the run,
  so that a collaborator may answer the same request differently at different times.
\<close>

record collab =
  start_transfer ::
    "nat \<Rightarrow> endpoint \<Rightarrow> string \<Rightarrow> endpoint \<Rightarrow> string \<Rightarrow> nat \<Rightarrow> error + transfer_outcome"
  secret_load :: "nat \<Rightarrow> string \<Rightarrow> error + string"
  submit_ingest :: "nat \<Rightarrow> string \<Rightarrow> string \<Rightarrow> string \<Rightarrow> string \<Rightarrow> error + string"
  json_load :: "nat \<Rightarrow> string \<Rightarrow> error + (string \<rightharpoonup> int)"
  schedule_prefect_flow ::
    "nat \<Rightarrow> string \<Rightarrow> string \<Rightarrow> (string \<times> string) list \<Rightarrow> timedelta \<Rightarrow> error + unit"

text \<open>
  A statement sequence is a function from the trace so far to a result and the extended
  trace. An exception ends the sequence: nothing in move.py catches one.
\<close>

type_synonym 'a action = "event list \<Rightarrow> (error + 'a) \<times> event list"

definition return_a :: "'a \<Rightarrow> 'a action" where
  "return_a x = (\<lambda>tr. (Inr x, tr))"

definition raise_a :: "error \<Rightarrow> 'a action" where
  "raise_a e = (\<lambda>tr. (Inl e, tr))"

definition lift_a :: "error + 'a \<Rightarrow> 'a action" where
  "lift_a r = (\<lambda>tr. (r, tr))"

definition bind_a :: "'a action \<Rightarrow> ('a \<Rightarrow> 'b action) \<Rightarrow> 'b action" where
  "bind_a m f =
     (\<lambda>tr. case m tr of
             (Inl e, tr') \<Rightarrow> (Inl e, tr')
           | (Inr x, tr') \<Rightarrow> f x tr')"

definition call_a :: "(nat \<Rightarrow> error + 'a) \<Rightarrow> (error + 'a \<Rightarrow> event) \<Rightarrow> 'a action" where
  "call_a answer record_event =
     (\<lambda>tr. (answer (length tr), tr @ [record_event (answer (length tr))]))"

section \<open>The tasks\<close>

text \<open>
  \<^verbatim>\<open>transfer_spot_to_data\<close>, lines 21-45. \<^verbatim>\<open>file_path[0]\<close> raises IndexError on
  the empty string; one leading separator is removed; both paths are joined and handed
  to \<^verbatim>\<open>start_transfer\<close>, whose result is returned. Log lines are left out.
\<close>

definition transfer_spot_to_data ::
  "collab \<Rightarrow> string \<Rightarrow> endpoint \<Rightarrow> endpoint \<Rightarrow> transfer_outcome action" where
  "transfer_spot_to_data c file_path spot832' data832' =
     (case file_path of
        [] \<Rightarrow> raise_a IndexError
      | ch # rest \<Rightarrow>
          (let file_path = (if ch = CHR ''/'' then rest else file_path);
               source_path = path_join (root_path spot832') file_path;
               dest_path = path_join (root_path data832') file_path
           in call_a (\<lambda>n. start_transfer c n spot832' source_path data832' dest_path 600)
                (StartTransfer spot832' source_path data832' dest_path 600)))"

text \<open>\<^verbatim>\<open>transfer_data_to_nersc\<close>, lines 49-75: the same steps for the second hop.\<close>

definition transfer_data_to_nersc ::
  "collab \<Rightarrow> string \<Rightarrow> endpoint \<Rightarrow> endpoint \<Rightarrow> transfer_outcome action" where
  "transfer_data_to_nersc c file_path data832' nersc832' =
     (case file_path of
        [] \<Rightarrow> raise_a IndexError
      | ch # rest \<Rightarrow>
          (let file_path = (if ch = CHR ''/'' then rest else file_path);
               source_path = path_join (root_path data832') file_path;
               dest_path = path_join (root_path nersc832') file_path
           in call_a (\<lambda>n. start_transfer c n data832' source_path nersc832' dest_path 600)
                (StartTransfer data832' source_path nersc832' dest_path 600)))"

text \<open>
  \<^verbatim>\<open>ingest_scicat\<close>, lines 87-104: the token is loaded first, then the path is
  stripped and prefixed, \<^verbatim>\<open>config.scicat["jobs_api_url"]\<close> is read (KeyError when
  missing) and the job is submitted. The response is logged and dropped.
\<close>

definition ingest_scicat :: "collab \<Rightarrow> config832 \<Rightarrow> string \<Rightarrow> unit action" where
  "ingest_scicat c config relative_path =
     bind_a (call_a (\<lambda>n. secret_load c n ''scicat-token'') (SecretLoad ''scicat-token''))
       (\<lambda>token.
          case relative_path of
            [] \<Rightarrow> raise_a IndexError
          | ch # rest \<Rightarrow>
              (let relative_path = (if ch = CHR ''/'' then rest else relative_path);
                   ingest_path = path_join ''/data_mover/8.3.2'' relative_path
               in bind_a (lift_a (dict_item (scicat config) ''jobs_api_url''))
                    (\<lambda>jobs_api_url.
                       bind_a
                         (call_a
                            (\<lambda>n. submit_ingest c n jobs_api_url ingest_path token
                                    ''als832_dx_3'')
                            (SubmitIngest jobs_api_url ingest_path token ''als832_dx_3''))
                         (\<lambda>response. return_a ()))))"

section \<open>The flow\<close>

text \<open>
  \<^verbatim>\<open>process_new_832_file\<close>, lines 108-153. The values returned by the two transfer
  tasks and by the ingestion task are not bound to anything. Both retention settings are
  read before the first scheduling call; each \<^verbatim>\<open>timedelta\<close> is built when its
  call's arguments are evaluated.
\<close>

definition process_new_832_file :: "collab \<Rightarrow> config832 \<Rightarrow> string \<Rightarrow> unit action" where
  "process_new_832_file c config file_path =
     bind_a (lift_a (relative_path_of file_path)) (\<lambda>relative_path.
     bind_a (transfer_spot_to_data c relative_path (spot832 config) (data832 config)) (\<lambda>_.
     bind_a (transfer_data_to_nersc c relative_path (data832 config) (nersc832 config)) (\<lambda>_.
     bind_a (ingest_scicat c config relative_path) (\<lambda>_.
     bind_a (call_a (\<lambda>n. json_load c n ''bl832-settings'') (JSONLoad ''bl832-settings''))
       (\<lambda>bl832_settings.
     bind_a (lift_a (dict_item bl832_settings ''delete_spot832_files_after_days''))
       (\<lambda>schedule_spot832_delete_days.
     bind_a (lift_a (dict_item bl832_settings ''delete_data832_files_after_days''))
       (\<lambda>schedule_data832_delete_days.
     bind_a (lift_a (timedelta_days schedule_spot832_delete_days)) (\<lambda>spot832_delay.
     bind_a
       (call_a
          (\<lambda>n. schedule_prefect_flow c n ''prune_spot832/prune_spot832''
                  (''delete spot832: '' @ path_name file_path)
                  [(''relative_path'', relative_path)] spot832_delay)
          (SchedulePrefectFlow ''prune_spot832/prune_spot832''
             (''delete spot832: '' @ path_name file_path)
             [(''relative_path'', relative_path)] spot832_delay)) (\<lambda>_.
     bind_a (lift_a (timedelta_days schedule_data832_delete_days)) (\<lambda>data832_delay.
     bind_a
       (call_a
          (\<lambda>n. schedule_prefect_flow c n ''prune_data832/prune_data832''
                  (''delete data832: '' @ path_name file_path)
                  [(''relative_path'', relative_path)] data832_delay)
          (SchedulePrefectFlow ''prune_data832/prune_data832''
             (''delete data832: '' @ path_name file_path)
             [(''relative_path'', relative_path)] data832_delay)) (\<lambda>_.
     return_a ())))))))))))"

text \<open>A run of the flow starts with an empty trace.\<close>

definition run_flow :: "collab \<Rightarrow> config832 \<Rightarrow> string \<Rightarrow> (error + unit) \<times> event list" where
  "run_flow c config file_path = process_new_832_file c config file_path []"

section \<open>Reading a trace\<close>

fun transfer_request :: "event \<Rightarrow> (endpoint \<times> string \<times> endpoint \<times> string) option" where
  "transfer_request (StartTransfer se sp de dp w r) = Some (se, sp, de, dp)"
| "transfer_request _ = None"

fun transfer_result :: "event \<Rightarrow> (error + transfer_outcome) option" where
  "transfer_result (StartTransfer se sp de dp w r) = Some r"
| "transfer_result _ = None"

fun ingest_call :: "event \<Rightarrow> (string \<times> (error + string)) option" where
  "ingest_call (SubmitIngest url path token ingestor r) = Some (path, r)"
| "ingest_call _ = None"

fun schedule_call ::
  "event \<Rightarrow> (string \<times> string \<times> (string \<times> string) list \<times> timedelta) option" where
  "schedule_call (SchedulePrefectFlow deployment flow_name params delay r) =
     Some (deployment, flow_name, params, delay)"
| "schedule_call _ = None"

fun schedule_result :: "event \<Rightarrow> (error + unit) option" where
  "schedule_result (SchedulePrefectFlow deployment flow_name params delay r) = Some r"
| "schedule_result _ = None"

fun settings_load :: "event \<Rightarrow> (error + (string \<rightharpoonup> int)) option" where
  "settings_load (JSONLoad block r) = Some r"
| "settings_load _ = None"

definition transfer_requests :: "event list \<Rightarrow> (endpoint \<times> string \<times> endpoint \<times> string) list" where
  "transfer_requests tr = List.map_filter transfer_request tr"

definition transfer_results :: "event list \<Rightarrow> (error + transfer_outcome) list" where
  "transfer_results tr = List.map_filter transfer_result tr"

definition ingest_calls :: "event list \<Rightarrow> (string \<times> (error + string)) list" where
  "ingest_calls tr = List.map_filter ingest_call tr"

definition schedule_calls ::
  "event list \<Rightarrow> (string \<times> string \<times> (string \<times> string) list \<times> timedelta) list" where
  "schedule_calls tr = List.map_filter schedule_call tr"

definition schedule_results :: "event list \<Rightarrow> (error + unit) list" where
  "schedule_results tr = List.map_filter schedule_result tr"

definition settings_loads :: "event list \<Rightarrow> (error + (string \<rightharpoonup> int)) list" where
  "settings_loads tr = List.map_filter settings_load tr"

section \<open>Notions used to state the properties\<close>

text \<open>
  The value of \<^verbatim>\<open>file_path\<close> after lines 30-31 (the same statement stands at
  lines 58-59 and 95-96) when the argument was \<open>ch # rest\<close>: one leading separator
  is removed.
\<close>

definition strip_sep :: "char \<Rightarrow> string \<Rightarrow> string" where
  "strip_sep ch rest = (if ch = CHR ''/'' then rest else ch # rest)"

text \<open>
  The positions at which a path has two separators in a row, and the statement that
  none of them touches the place where a root and a relative path were put together:
  each lies wholly inside the root or wholly inside the relative path.
\<close>

definition doubled_seps :: "string \<Rightarrow> nat list" where
  "doubled_seps p =
     filter (\<lambda>i. p ! i = CHR ''/'' \<and> p ! Suc i = CHR ''/'') [0..<length p - 1]"

definition junction_clean :: "string \<Rightarrow> string \<Rightarrow> string \<Rightarrow> bool" where
  "junction_clean root rel p =
     (\<forall>i \<in> set (doubled_seps p). Suc i < length root \<or> length p - length rel \<le> i)"

section \<open>Sample collaborators and configurations\<close>

text \<open>Concrete inputs for the runs that are evaluated below.\<close>

definition sample_config :: config832 where
  "sample_config =
     \<lparr>spot832 = \<lparr>root_path = ''/spot'', identity = ''spot832''\<rparr>,
      data832 = \<lparr>root_path = ''/data/'', identity = ''data832''\<rparr>,
      nersc832 = \<lparr>root_path = ''/nersc/8.3.2'', identity = ''nersc832''\<rparr>,
      scicat = [''jobs_api_url'' \<mapsto> ''https://scicat/jobs'']\<rparr>"

definition sample_settings :: "string \<rightharpoonup> int" where
  "sample_settings =
     [''delete_spot832_files_after_days'' \<mapsto> 14,
      ''delete_data832_files_after_days'' \<mapsto> 30]"

text \<open>Every collaborator call returns, and every transfer succeeds.\<close>

definition accepting :: collab where
  "accepting =
     \<lparr>start_transfer = (\<lambda>n se sp de dp w. Inr Succeeded),
      secret_load = (\<lambda>n block. Inr ''token''),
      submit_ingest = (\<lambda>n url path token ingestor. Inr ''accepted''),
      json_load = (\<lambda>n block. Inr sample_settings),
      schedule_prefect_flow = (\<lambda>n deployment flow_name params delay. Inr ())\<rparr>"

text \<open>The first transfer returns TimedOut, every later one Failed.\<close>

definition failing_transfers :: collab where
  "failing_transfers =
     accepting\<lparr>start_transfer :=
       (\<lambda>n se sp de dp w. if n = 0 then Inr TimedOut else Inr (Failed ''PERMISSION_DENIED''))\<rparr>"

text \<open>The ingestion submission raises.\<close>

definition raising_ingest :: collab where
  "raising_ingest =
     accepting\<lparr>submit_ingest :=
       (\<lambda>n url path token ingestor. Inl (Raised ''IngestSubmitError''))\<rparr>"

text \<open>The ingestion submission returns a response that reports a failure.\<close>

definition rejecting_ingest :: collab where
  "rejecting_ingest =
     accepting\<lparr>submit_ingest :=
       (\<lambda>n url path token ingestor. Inr ''500 Internal Server Error'')\<rparr>"

text \<open>Endpoints whose roots are the file system root and \<^verbatim>\<open>/raw\<close>.\<close>

definition slash_endpoint :: endpoint where
  "slash_endpoint = \<lparr>root_path = ''/'', identity = ''spot832''\<rparr>"

definition raw_endpoint :: endpoint where
  "raw_endpoint = \<lparr>root_path = ''/raw'', identity = ''data832''\<rparr>"

section \<open>Facts about searching and splitting\<close>

lemma find_str_None_iff: "find_str sub s = None \<longleftrightarrow> \<not> sublist sub s"
  by (induction s) (auto simp: sublist_Cons_right)

lemma find_str_take: "sub \<noteq> [] \<Longrightarrow> find_str sub s = Some i \<Longrightarrow> \<not> sublist sub (take i s)"
proof (induction s arbitrary: i)
  case Nil
  then show ?case by simp
next
  case (Cons ch s)
  show ?case
  proof (cases "prefix sub (ch # s)")
    case True
    with Cons.prems show ?thesis by simp
  next
    case False
    with Cons.prems obtain k where k: "find_str sub s = Some k" "i = Suc k" by auto
    from Cons.IH [OF Cons.prems(1) k(1)] have "\<not> sublist sub (take k s)" .
    moreover have "\<not> prefix sub (ch # take k s)"
    proof
      assume "prefix sub (ch # take k s)"
      moreover have "prefix (ch # take k s) (ch # s)" by (simp add: take_is_prefix)
      ultimately have "prefix sub (ch # s)" by (rule prefix_order.trans)
      with False show False ..
    qed
    ultimately show ?thesis using k(2) by (simp add: sublist_Cons_right)
  qed
qed

lemma border_free:
  assumes "x \<notin> set ms" and "prefix (x # ms) (a @ (x # ms) @ r)"
  shows "a = [] \<or> prefix (x # ms) a"
proof -
  from assms(2) consider "prefix (x # ms) a"
    | us where "x # ms = a @ us" "prefix us ((x # ms) @ r)"
    using prefix_append [of "x # ms" a "(x # ms) @ r"] by blast
  then show ?thesis
  proof cases
    case 1
    then show ?thesis ..
  next
    case 2
    show ?thesis
    proof (cases a)
      case Nil
      then show ?thesis ..
    next
      case (Cons y a')
      with 2(1) have ms: "ms = a' @ us" by simp
      show ?thesis
      proof (cases us)
        case Nil
        with 2(1) show ?thesis by simp
      next
        case (Cons u us')
        with 2(2) have "u = x" by simp
        with Cons ms have "x \<in> set ms" by simp
        with assms(1) show ?thesis by simp
      qed
    qed
  qed
qed

lemma find_str_first:
  assumes "x \<notin> set ms" and "\<not> sublist (x # ms) a"
  shows "find_str (x # ms) (a @ (x # ms) @ r) = Some (length a)"
  using assms(2)
proof (induction a)
  case Nil
  then show ?case by simp
next
  case (Cons ch a)
  then have no: "\<not> prefix (x # ms) (ch # a)" and rest: "\<not> sublist (x # ms) a"
    by (simp_all add: sublist_Cons_right)
  have "\<not> prefix (x # ms) ((ch # a) @ (x # ms) @ r)"
    using border_free [OF assms(1), of "ch # a" r] no by blast
  with Cons.IH [OF rest] show ?case by simp
qed

lemma split_from_none:
  "\<not> sublist sep s \<Longrightarrow> split_from sep s = [s]"
  by (simp add: split_from.simps find_str_None_iff [symmetric])

lemma split_from_cut:
  assumes "x \<notin> set ms" and "\<not> sublist (x # ms) a"
  shows "split_from (x # ms) (a @ (x # ms) @ r) = a # split_from (x # ms) r"
  using find_str_first [OF assms, of r]
  by (subst split_from.simps) simp

lemma split_from_pieces:
  "sep \<noteq> [] \<Longrightarrow> piece \<in> set (split_from sep s) \<Longrightarrow> \<not> sublist sep piece"
proof (induction sep s rule: split_from.induct)
  case (1 sep s)
  show ?case
  proof (cases "find_str sep s")
    case None
    with 1 show ?thesis
      by (simp add: split_from.simps [of sep s] find_str_None_iff)
  next
    case (Some i)
    with 1 show ?thesis
      by (auto simp: split_from.simps [of sep s] find_str_take)
  qed
qed


lemma relative_path_of_no_marker:
  "\<not> sublist ''/global'' p \<Longrightarrow> relative_path_of p = Inl IndexError"
  by (simp add: relative_path_of_def str_split_def list_item_def split_from_none)

lemma relative_path_of_marker_free:
  assumes "relative_path_of p = Inr r"
  shows "\<not> sublist ''/global'' r"
proof -
  from assms have "1 < length (split_from ''/global'' p)" and "r = split_from ''/global'' p ! 1"
    by (auto simp: relative_path_of_def str_split_def list_item_def split: if_splits)
  then have "r \<in> set (split_from ''/global'' p)"
    by (metis nth_mem)
  then show ?thesis
    by (rule split_from_pieces [rotated]) simp
qed

section \<open>Facts about joined paths\<close>

lemma suffix_sep: "suffix ''/'' a \<longleftrightarrow> a \<noteq> [] \<and> last a = CHR ''/''"
  by (cases a rule: rev_cases) (auto simp: suffix_def)

lemma not_prefix_sep: "\<not> prefix ''/'' b \<longleftrightarrow> b = [] \<or> hd b \<noteq> CHR ''/''"
  by (cases b) auto

lemma path_join_relative:
  "\<not> prefix ''/'' rel \<Longrightarrow>
     path_join root rel = (if root = [] \<or> last root = CHR ''/'' then root @ rel else root @ ''/'' @ rel)"
  by (auto simp: path_join_def suffix_sep)

lemma path_join_root: "\<not> prefix ''/'' rel \<Longrightarrow> prefix root (path_join root rel)"
  by (simp add: path_join_relative)

lemma path_join_junction:
  assumes "\<not> prefix ''/'' rel"
  shows "junction_clean root rel (path_join root rel)"
  unfolding junction_clean_def
proof
  fix i
  assume "i \<in> set (doubled_seps (path_join root rel))"
  then have i: "Suc i < length (path_join root rel)"
      "path_join root rel ! i = CHR ''/''" "path_join root rel ! Suc i = CHR ''/''"
    by (auto simp: doubled_seps_def)
  show "Suc i < length root \<or> length (path_join root rel) - length rel \<le> i"
  proof (cases "root = [] \<or> last root = CHR ''/''")
    case True
    then have p: "path_join root rel = root @ rel"
      using assms by (simp add: path_join_relative)
    show ?thesis
    proof (rule ccontr)
      assume "\<not> ?thesis"
      with p have "Suc i = length root" by simp
      with i p have "rel \<noteq> []" "rel ! 0 = CHR ''/''"
        by (auto simp: nth_append)
      with assms show False by (simp add: not_prefix_sep hd_conv_nth)
    qed
  next
    case False
    then have p: "path_join root rel = root @ ''/'' @ rel"
      using assms by (simp add: path_join_relative)
    show ?thesis
    proof (rule ccontr)
      assume "\<not> ?thesis"
      with p have "Suc i = length root \<or> i = length root" by auto
      then show False
      proof
        assume a: "Suc i = length root"
        then have "i < length root" by simp
        with i(2) p have "root ! i = CHR ''/''"
          by (simp add: nth_append)
        moreover from a False have "last root = root ! i"
          by (metis last_conv_nth diff_Suc_1)
        ultimately show False using False by simp
      next
        assume "i = length root"
        with i p have "rel \<noteq> []" "rel ! 0 = CHR ''/''"
          by (auto simp: nth_append)
        with assms show False by (simp add: not_prefix_sep hd_conv_nth)
      qed
    qed
  qed
qed


section \<open>Facts about the tasks and the flow\<close>

lemma transfer_spot_to_data_Nil:
  "transfer_spot_to_data c [] s d tr = (Inl IndexError, tr)"
  by (simp add: transfer_spot_to_data_def raise_a_def)

lemma transfer_data_to_nersc_Nil:
  "transfer_data_to_nersc c [] s d tr = (Inl IndexError, tr)"
  by (simp add: transfer_data_to_nersc_def raise_a_def)

lemma transfer_spot_to_data_Cons:
  "transfer_spot_to_data c (ch # rest) s d tr =
     (start_transfer c (length tr) s (path_join (root_path s) (strip_sep ch rest)) d
        (path_join (root_path d) (strip_sep ch rest)) 600,
      tr @ [StartTransfer s (path_join (root_path s) (strip_sep ch rest)) d
              (path_join (root_path d) (strip_sep ch rest)) 600
              (start_transfer c (length tr) s (path_join (root_path s) (strip_sep ch rest)) d
                 (path_join (root_path d) (strip_sep ch rest)) 600)])"
  by (simp add: transfer_spot_to_data_def call_a_def strip_sep_def Let_def)

lemma transfer_data_to_nersc_Cons:
  "transfer_data_to_nersc c (ch # rest) s d tr =
     (start_transfer c (length tr) s (path_join (root_path s) (strip_sep ch rest)) d
        (path_join (root_path d) (strip_sep ch rest)) 600,
      tr @ [StartTransfer s (path_join (root_path s) (strip_sep ch rest)) d
              (path_join (root_path d) (strip_sep ch rest)) 600
              (start_transfer c (length tr) s (path_join (root_path s) (strip_sep ch rest)) d
                 (path_join (root_path d) (strip_sep ch rest)) 600)])"
  by (simp add: transfer_data_to_nersc_def call_a_def strip_sep_def Let_def)

lemmas proj_defs = transfer_requests_def transfer_results_def ingest_calls_def
  schedule_calls_def schedule_results_def settings_loads_def

lemmas flow_defs = run_flow_def process_new_832_file_def ingest_scicat_def bind_a_def
  lift_a_def call_a_def return_a_def raise_a_def dict_item_def timedelta_days_def Let_def
  transfer_spot_to_data_Cons transfer_data_to_nersc_Cons

lemma run_success:
  assumes "run_flow c config file_path = (Inr (), tr)"
  shows "\<exists>ch rest o1 o2 token url response settings d1 d2.
      relative_path_of file_path = Inr (ch # rest)
    \<and> scicat config ''jobs_api_url'' = Some url
    \<and> settings ''delete_spot832_files_after_days'' = Some d1
    \<and> settings ''delete_data832_files_after_days'' = Some d2
    \<and> \<bar>d1\<bar> \<le> 999999999 \<and> \<bar>d2\<bar> \<le> 999999999
    \<and> tr = [StartTransfer (spot832 config) (path_join (root_path (spot832 config)) (strip_sep ch rest))
               (data832 config) (path_join (root_path (data832 config)) (strip_sep ch rest)) 600 (Inr o1),
            StartTransfer (data832 config) (path_join (root_path (data832 config)) (strip_sep ch rest))
               (nersc832 config) (path_join (root_path (nersc832 config)) (strip_sep ch rest)) 600 (Inr o2),
            SecretLoad ''scicat-token'' (Inr token),
            SubmitIngest url (path_join ''/data_mover/8.3.2'' (strip_sep ch rest)) token ''als832_dx_3'' (Inr response),
            JSONLoad ''bl832-settings'' (Inr settings),
            SchedulePrefectFlow ''prune_spot832/prune_spot832'' (''delete spot832: '' @ path_name file_path)
               [(''relative_path'', ch # rest)] (Timedelta d1) (Inr ()),
            SchedulePrefectFlow ''prune_data832/prune_data832'' (''delete data832: '' @ path_name file_path)
               [(''relative_path'', ch # rest)] (Timedelta d2) (Inr ())]"
proof (cases "relative_path_of file_path")
  case (Inl e)
  with assms show ?thesis by (simp add: flow_defs)
next
  case (Inr rp)
  show ?thesis
  proof (cases rp)
    case Nil
    with Inr assms show ?thesis
      by (simp add: flow_defs transfer_spot_to_data_Nil)
  next
    case (Cons ch rest)
    with Inr assms show ?thesis
      by (auto simp: flow_defs strip_sep_def [symmetric] split: sum.splits option.splits if_splits)
  qed
qed


lemma rel_scan:
  "relative_path_of ''/global/raw/sample1/scan0001.h5'' = Inr ''/raw/sample1/scan0001.h5''"
  by code_simp

lemma name_scan: "path_name ''/global/raw/sample1/scan0001.h5'' = ''scan0001.h5''"
  by code_simp

lemma join_scan:
  "path_join ''/data_mover/8.3.2'' ''raw/sample1/scan0001.h5''
     = ''/data_mover/8.3.2/raw/sample1/scan0001.h5''"
  by code_simp

lemma run_no_marker:
  "\<not> sublist ''/global'' file_path \<Longrightarrow> run_flow c config file_path = (Inl IndexError, [])"
  by (simp add: run_flow_def process_new_832_file_def bind_a_def lift_a_def
      relative_path_of_no_marker)

lemma run_shape:
  assumes "relative_path_of file_path = Inr (ch # rest)"
    and "run_flow c config file_path = (res, tr)"
  shows "transfer_requests tr \<noteq> []"
    and "prefix (transfer_requests tr)
          [(spot832 config, path_join (root_path (spot832 config)) (strip_sep ch rest),
            data832 config, path_join (root_path (data832 config)) (strip_sep ch rest)),
           (data832 config, path_join (root_path (data832 config)) (strip_sep ch rest),
            nersc832 config, path_join (root_path (nersc832 config)) (strip_sep ch rest))]"
    and "\<forall>x \<in> set (ingest_calls tr). fst x = path_join ''/data_mover/8.3.2'' (strip_sep ch rest)"
  using assms
  by (auto simp: flow_defs proj_defs strip_sep_def [symmetric]
      split: sum.splits option.splits if_splits)

text \<open>The four sample runs on \<^verbatim>\<open>/global/raw/sample1/scan0001.h5\<close>.\<close>

lemmas sample_defs = accepting_def failing_transfers_def raising_ingest_def
  rejecting_ingest_def sample_config_def sample_settings_def strip_sep_def path_join_def
  suffix_sep rel_scan name_scan

lemma run_accepting:
  "run_flow accepting sample_config ''/global/raw/sample1/scan0001.h5'' =
     (Inr (),
      [StartTransfer (spot832 sample_config) ''/spot/raw/sample1/scan0001.h5''
         (data832 sample_config) ''/data/raw/sample1/scan0001.h5'' 600 (Inr Succeeded),
       StartTransfer (data832 sample_config) ''/data/raw/sample1/scan0001.h5''
         (nersc832 sample_config) ''/nersc/8.3.2/raw/sample1/scan0001.h5'' 600 (Inr Succeeded),
       SecretLoad ''scicat-token'' (Inr ''token''),
       SubmitIngest ''https://scicat/jobs'' ''/data_mover/8.3.2/raw/sample1/scan0001.h5''
         ''token'' ''als832_dx_3'' (Inr ''accepted''),
       JSONLoad ''bl832-settings'' (Inr sample_settings),
       SchedulePrefectFlow ''prune_spot832/prune_spot832'' ''delete spot832: scan0001.h5''
         [(''relative_path'', ''/raw/sample1/scan0001.h5'')] (Timedelta 14) (Inr ()),
       SchedulePrefectFlow ''prune_data832/prune_data832'' ''delete data832: scan0001.h5''
         [(''relative_path'', ''/raw/sample1/scan0001.h5'')] (Timedelta 30) (Inr ())])"
  by (simp add: flow_defs sample_defs)

lemma run_failing_transfers:
  "run_flow failing_transfers sample_config ''/global/raw/sample1/scan0001.h5'' =
     (Inr (),
      [StartTransfer (spot832 sample_config) ''/spot/raw/sample1/scan0001.h5''
         (data832 sample_config) ''/data/raw/sample1/scan0001.h5'' 600 (Inr TimedOut),
       StartTransfer (data832 sample_config) ''/data/raw/sample1/scan0001.h5''
         (nersc832 sample_config) ''/nersc/8.3.2/raw/sample1/scan0001.h5'' 600
         (Inr (Failed ''PERMISSION_DENIED'')),
       SecretLoad ''scicat-token'' (Inr ''token''),
       SubmitIngest ''https://scicat/jobs'' ''/data_mover/8.3.2/raw/sample1/scan0001.h5''
         ''token'' ''als832_dx_3'' (Inr ''accepted''),
       JSONLoad ''bl832-settings'' (Inr sample_settings),
       SchedulePrefectFlow ''prune_spot832/prune_spot832'' ''delete spot832: scan0001.h5''
         [(''relative_path'', ''/raw/sample1/scan0001.h5'')] (Timedelta 14) (Inr ()),
       SchedulePrefectFlow ''prune_data832/prune_data832'' ''delete data832: scan0001.h5''
         [(''relative_path'', ''/raw/sample1/scan0001.h5'')] (Timedelta 30) (Inr ())])"
  by (simp add: flow_defs sample_defs)

lemma run_raising_ingest:
  "run_flow raising_ingest sample_config ''/global/raw/sample1/scan0001.h5'' =
     (Inl (Raised ''IngestSubmitError''),
      [StartTransfer (spot832 sample_config) ''/spot/raw/sample1/scan0001.h5''
         (data832 sample_config) ''/data/raw/sample1/scan0001.h5'' 600 (Inr Succeeded),
       StartTransfer (data832 sample_config) ''/data/raw/sample1/scan0001.h5''
         (nersc832 sample_config) ''/nersc/8.3.2/raw/sample1/scan0001.h5'' 600 (Inr Succeeded),
       SecretLoad ''scicat-token'' (Inr ''token''),
       SubmitIngest ''https://scicat/jobs'' ''/data_mover/8.3.2/raw/sample1/scan0001.h5''
         ''token'' ''als832_dx_3'' (Inl (Raised ''IngestSubmitError''))])"
  by (simp add: flow_defs sample_defs)

lemma run_rejecting_ingest:
  "run_flow rejecting_ingest sample_config ''/global/raw/sample1/scan0001.h5'' =
     (Inr (),
      [StartTransfer (spot832 sample_config) ''/spot/raw/sample1/scan0001.h5''
         (data832 sample_config) ''/data/raw/sample1/scan0001.h5'' 600 (Inr Succeeded),
       StartTransfer (data832 sample_config) ''/data/raw/sample1/scan0001.h5''
         (nersc832 sample_config) ''/nersc/8.3.2/raw/sample1/scan0001.h5'' 600 (Inr Succeeded),
       SecretLoad ''scicat-token'' (Inr ''token''),
       SubmitIngest ''https://scicat/jobs'' ''/data_mover/8.3.2/raw/sample1/scan0001.h5''
         ''token'' ''als832_dx_3'' (Inr ''500 Internal Server Error''),
       JSONLoad ''bl832-settings'' (Inr sample_settings),
       SchedulePrefectFlow ''prune_spot832/prune_spot832'' ''delete spot832: scan0001.h5''
         [(''relative_path'', ''/raw/sample1/scan0001.h5'')] (Timedelta 14) (Inr ()),
       SchedulePrefectFlow ''prune_data832/prune_data832'' ''delete data832: scan0001.h5''
         [(''relative_path'', ''/raw/sample1/scan0001.h5'')] (Timedelta 30) (Inr ())])"
  by (simp add: flow_defs sample_defs)

text \<open>
  An ingestion submission that raises ends the run with its exception: the settings are
  not loaded and nothing is scheduled.
\<close>

lemma run_ingest_raised:
  assumes "run_flow c config file_path = (res, tr)"
    and "ingest_calls tr = [(ingest_path, Inl e)]"
  shows "res = Inl e \<and> settings_loads tr = [] \<and> schedule_calls tr = []"
proof (cases "relative_path_of file_path")
  case (Inl e')
  with assms show ?thesis by (simp add: flow_defs proj_defs)
next
  case (Inr rp)
  show ?thesis
  proof (cases rp)
    case Nil
    with Inr assms show ?thesis
      by (simp add: flow_defs proj_defs transfer_spot_to_data_Nil)
  next
    case (Cons ch rest)
    with Inr assms show ?thesis
      by (auto simp: flow_defs proj_defs split: sum.splits option.splits if_splits)
  qed
qed

text \<open>An ingestion submission that returns is followed by the load of the settings.\<close>

lemma run_ingest_returned:
  assumes "run_flow c config file_path = (res, tr)"
    and "ingest_calls tr = [(ingest_path, Inr response)]"
  shows "\<exists>rp loaded. relative_path_of file_path = Inr rp \<and> settings_loads tr = [loaded]"
proof (cases "relative_path_of file_path")
  case (Inl e)
  with assms show ?thesis by (simp add: flow_defs proj_defs)
next
  case (Inr rp)
  show ?thesis
  proof (cases rp)
    case Nil
    with Inr assms show ?thesis
      by (simp add: flow_defs proj_defs transfer_spot_to_data_Nil)
  next
    case (Cons ch rest)
    with Inr assms show ?thesis
      by (auto simp: flow_defs proj_defs split: sum.splits option.splits if_splits)
  qed
qed

text \<open>
  With the settings loaded, both retention values present and the first a valid day
  count, the first scheduling call is made; once it has returned, and the second value
  is a valid day count, the second scheduling call is made.
\<close>

lemma run_settings_loaded:
  assumes "run_flow c config file_path = (res, tr)"
    and "relative_path_of file_path = Inr rp"
    and "settings_loads tr = [Inr settings]"
    and "settings ''delete_spot832_files_after_days'' = Some d1"
    and "settings ''delete_data832_files_after_days'' = Some d2"
    and "\<bar>d1\<bar> \<le> 999999999"
  shows "\<exists>accepted.
           take 1 (schedule_calls tr) =
             [(''prune_spot832/prune_spot832'', ''delete spot832: '' @ path_name file_path,
               [(''relative_path'', rp)], Timedelta d1)]
         \<and> take 1 (schedule_results tr) = [accepted]
         \<and> (accepted = Inr () \<and> \<bar>d2\<bar> \<le> 999999999 \<longrightarrow>
              schedule_calls tr =
                [(''prune_spot832/prune_spot832'', ''delete spot832: '' @ path_name file_path,
                  [(''relative_path'', rp)], Timedelta d1),
                 (''prune_data832/prune_data832'', ''delete data832: '' @ path_name file_path,
                  [(''relative_path'', rp)], Timedelta d2)])"
proof (cases rp)
  case Nil
  with assms(1-3) show ?thesis
    by (simp add: flow_defs proj_defs transfer_spot_to_data_Nil)
next
  case (Cons ch rest)
  with assms show ?thesis
    by (auto simp: flow_defs proj_defs split: sum.splits option.splits if_splits)
qed

section \<open>Claims about the relative path\<close>

text \<open>
  C9. The path is split at every occurrence of \<^verbatim>\<open>/global\<close> and only the piece between
  the first and the second occurrence is kept. For a path \<open>a @ ''/global'' @ b @ ''/global'' @ t\<close>,
  where neither \<open>a\<close> nor \<open>b\<close> contains the marker, the pieces are \<open>a\<close>, \<open>b\<close> and
  the pieces of \<open>t\<close>, and the relative path is \<open>b\<close>: everything from the second
  occurrence on is dropped, and no error is raised.
\<close>

theorem second_marker_truncates:
  assumes "file_path = a @ ''/global'' @ b @ ''/global'' @ t"
    and "\<not> sublist ''/global'' a" and "\<not> sublist ''/global'' b"
  shows "str_split file_path ''/global'' = Inr (a # b # split_from ''/global'' t)
       \<and> relative_path_of file_path = Inr b"
proof -
  have "split_from ''/global'' (a @ ''/global'' @ b @ ''/global'' @ t)
          = a # split_from ''/global'' (b @ ''/global'' @ t)"
    using split_from_cut [of "CHR ''/''" "''global''" a "b @ ''/global'' @ t"] assms(2) by simp
  moreover have "split_from ''/global'' (b @ ''/global'' @ t) = b # split_from ''/global'' t"
    using split_from_cut [of "CHR ''/''" "''global''" b t] assms(3) by simp
  ultimately show ?thesis
    using assms(1) by (simp add: relative_path_of_def str_split_def list_item_def)
qed

theorem second_marker_truncates_witness:
  "relative_path_of ''/global/raw/global/x.h5'' = Inr ''/raw''
 \<and> str_split ''/global/raw/global/x.h5'' ''/global'' = Inr [[], ''/raw'', ''/x.h5'']"
proof -
  have a: "\<not> sublist ''/global'' []" and b: "\<not> sublist ''/global'' ''/raw''"
    by (simp_all add: sublist_Cons_right)
  have t: "split_from ''/global'' ''/x.h5'' = [''/x.h5'']"
    by (rule split_from_none) (simp add: sublist_Cons_right)
  have p: "''/global/raw/global/x.h5'' = [] @ ''/global'' @ ''/raw'' @ ''/global'' @ ''/x.h5''"
    by simp
  from second_marker_truncates [OF p a b] t show ?thesis by simp
qed

text \<open>
  C3, as the code has it. Taking the relative path is not idempotent. Whatever line 117
  returns contains no \<^verbatim>\<open>/global\<close> any more, so taking the relative path of that
  result raises IndexError: the second application never returns the same string.
\<close>

theorem relative_path_not_accepted_again:
  assumes "relative_path_of file_path = Inr r"
  shows "\<not> sublist ''/global'' r \<and> relative_path_of r = Inl IndexError"
  using assms relative_path_of_marker_free relative_path_of_no_marker by blast

theorem relative_path_not_accepted_again_witness:
  "relative_path_of ''/global/raw/sample1/scan0001.h5'' = Inr ''/raw/sample1/scan0001.h5''
 \<and> relative_path_of ''/raw/sample1/scan0001.h5'' = Inl IndexError"
  using relative_path_not_accepted_again [OF rel_scan] rel_scan by simp

text \<open>
  C3, as the claim states it, fails on \<^verbatim>\<open>/global/raw/sample1/scan0001.h5\<close>: the
  path is accepted, and the second application does not give the first result.
\<close>

theorem relative_path_idempotent_counterexample:
  "relative_path_of ''/global/raw/sample1/scan0001.h5'' = Inr ''/raw/sample1/scan0001.h5''
 \<and> relative_path_of ''/raw/sample1/scan0001.h5'' \<noteq> Inr ''/raw/sample1/scan0001.h5''"
proof -
  have "relative_path_of ''/raw/sample1/scan0001.h5'' = Inl IndexError"
    by (rule relative_path_of_no_marker) (simp add: sublist_Cons_right)
  with rel_scan show ?thesis by simp
qed

text \<open>
  C4, as the code has it. A path in which the substring \<^verbatim>\<open>/global\<close> does not occur
  makes line 117 raise Python's IndexError, and the run ends with that error before any
  collaborator has been called.
\<close>

theorem missing_marker_index_error:
  assumes "\<not> sublist ''/global'' file_path"
  shows "relative_path_of file_path = Inl IndexError
       \<and> run_flow c config file_path = (Inl IndexError, [])"
  using assms by (simp add: relative_path_of_no_marker run_no_marker)

theorem missing_marker_index_error_witness:
  "\<not> sublist ''/global'' ''/raw/sample1/scan0001.h5''
 \<and> run_flow accepting sample_config ''/raw/sample1/scan0001.h5'' = (Inl IndexError, [])"
proof -
  have h: "\<not> sublist ''/global'' ''/raw/sample1/scan0001.h5''"
    by (simp add: sublist_Cons_right)
  from missing_marker_index_error [OF h, of accepting sample_config] h show ?thesis by simp
qed

text \<open>
  C4, as the claim states it, fails twice. The error of a path without the marker is
  IndexError, not a MalformedPathError; and a path with no segment \<^verbatim>\<open>global\<close> is
  accepted when the substring \<^verbatim>\<open>/global\<close> occurs in it.
\<close>

theorem missing_marker_counterexample:
  "fst (run_flow accepting sample_config ''/raw/sample1/scan0001.h5'') = Inl IndexError
 \<and> fst (run_flow accepting sample_config ''/raw/sample1/scan0001.h5'')
      \<noteq> Inl (Raised ''MalformedPathError'')
 \<and> ''global'' \<notin> set (split_from ''/'' ''/globalx/f.h5'')
 \<and> relative_path_of ''/globalx/f.h5'' = Inr ''x/f.h5''"
proof -
  have "\<not> sublist ''/global'' ''/raw/sample1/scan0001.h5''"
    by (simp add: sublist_Cons_right)
  then have "run_flow accepting sample_config ''/raw/sample1/scan0001.h5'' = (Inl IndexError, [])"
    by (rule run_no_marker)
  moreover have "split_from ''/'' ''/globalx/f.h5'' = [[], ''globalx'', ''f.h5'']"
    by code_simp
  moreover have "relative_path_of ''/globalx/f.h5'' = Inr ''x/f.h5''"
    by code_simp
  ultimately show ?thesis by simp
qed

section \<open>Claims about the transfer tasks\<close>

text \<open>
  C7. For a path argument that does not begin with a separator, every transfer request
  a transfer task issues has a source path and a destination path that keep the root
  path of their endpoint as a prefix, and any doubled separator in them lies wholly
  inside the root or wholly inside the path argument, never at the place where the two
  were joined. A non-empty argument leads to exactly one request, between the two
  endpoints given.
\<close>

theorem relative_join_keeps_root:
  assumes "\<not> prefix ''/'' file_path"
  shows "(\<forall>(se, sp, de, dp) \<in>
            set (transfer_requests (snd (transfer_spot_to_data c file_path src dst []))).
            prefix (root_path se) sp \<and> prefix (root_path de) dp
          \<and> junction_clean (root_path se) file_path sp
          \<and> junction_clean (root_path de) file_path dp)
       \<and> (\<forall>(se, sp, de, dp) \<in>
            set (transfer_requests (snd (transfer_data_to_nersc c file_path src dst []))).
            prefix (root_path se) sp \<and> prefix (root_path de) dp
          \<and> junction_clean (root_path se) file_path sp
          \<and> junction_clean (root_path de) file_path dp)
       \<and> (file_path \<noteq> [] \<longrightarrow>
            map (\<lambda>(se, sp, de, dp). (se, de))
              (transfer_requests (snd (transfer_spot_to_data c file_path src dst [])))
              = [(src, dst)]
          \<and> map (\<lambda>(se, sp, de, dp). (se, de))
              (transfer_requests (snd (transfer_data_to_nersc c file_path src dst [])))
              = [(src, dst)])"
proof (cases file_path)
  case Nil
  then show ?thesis
    by (simp add: transfer_spot_to_data_Nil transfer_data_to_nersc_Nil proj_defs)
next
  case (Cons ch rest)
  with assms have "strip_sep ch rest = file_path"
    by (simp add: strip_sep_def)
  with Cons assms show ?thesis
    by (simp add: transfer_spot_to_data_Cons transfer_data_to_nersc_Cons proj_defs
        path_join_root path_join_junction)
qed

theorem relative_join_keeps_root_witness:
  "\<not> prefix ''/'' ''raw/f''
 \<and> transfer_requests
      (snd (transfer_spot_to_data accepting ''raw/f'' (spot832 sample_config)
              (data832 sample_config) []))
     = [(spot832 sample_config, ''/spot/raw/f'', data832 sample_config, ''/data/raw/f'')]
 \<and> prefix ''/spot'' ''/spot/raw/f'' \<and> prefix ''/data/'' ''/data/raw/f''
 \<and> junction_clean ''/spot'' ''raw/f'' ''/spot/raw/f''
 \<and> junction_clean ''/data/'' ''raw/f'' ''/data/raw/f''"
proof -
  have h: "\<not> prefix ''/'' ''raw/f''" by simp
  have r: "transfer_requests
      (snd (transfer_spot_to_data accepting ''raw/f'' (spot832 sample_config)
              (data832 sample_config) []))
     = [(spot832 sample_config, ''/spot/raw/f'', data832 sample_config, ''/data/raw/f'')]"
    by (simp add: transfer_spot_to_data_Cons proj_defs sample_defs)
  from relative_join_keeps_root [OF h, of accepting "spot832 sample_config" "data832 sample_config"]
  show ?thesis
    unfolding r using h by (simp add: sample_config_def)
qed

text \<open>
  C10, as the code has it. The tasks remove one leading separator only. For an argument
  that begins with two separators, what is left still begins with a separator, the join
  returns it unchanged, and both the source and the destination of the request are that
  stripped path, whatever the roots of the endpoints are.
\<close>

theorem double_separator_drops_root:
  assumes "file_path = CHR ''/'' # CHR ''/'' # rest"
  shows "transfer_requests (snd (transfer_spot_to_data c file_path src dst []))
           = [(src, CHR ''/'' # rest, dst, CHR ''/'' # rest)]
       \<and> transfer_requests (snd (transfer_data_to_nersc c file_path src dst []))
           = [(src, CHR ''/'' # rest, dst, CHR ''/'' # rest)]"
  using assms
  by (simp add: transfer_spot_to_data_Cons transfer_data_to_nersc_Cons proj_defs
      strip_sep_def path_join_def)

theorem double_separator_drops_root_witness:
  "transfer_requests
     (snd (transfer_spot_to_data accepting ''//raw/f'' (spot832 sample_config)
             (data832 sample_config) []))
     = [(spot832 sample_config, ''/raw/f'', data832 sample_config, ''/raw/f'')]
 \<and> \<not> prefix (root_path (spot832 sample_config)) ''/raw/f''
 \<and> \<not> prefix (root_path (data832 sample_config)) ''/raw/f''"
proof -
  have h: "''//raw/f'' = CHR ''/'' # CHR ''/'' # ''raw/f''" by simp
  from double_separator_drops_root [OF h, of accepting "spot832 sample_config" "data832 sample_config"]
  show ?thesis by (simp add: sample_config_def)
qed

text \<open>
  C10, as the claim states it, fails when the stripped path happens to lie under the
  roots: with the roots \<^verbatim>\<open>/\<close> and \<^verbatim>\<open>/raw\<close> the argument \<^verbatim>\<open>//raw/f\<close> is
  addressed at \<^verbatim>\<open>/raw/f\<close>, which is inside both endpoint roots.
\<close>

theorem double_separator_counterexample:
  "transfer_requests
     (snd (transfer_spot_to_data accepting ''//raw/f'' slash_endpoint raw_endpoint []))
     = [(slash_endpoint, ''/raw/f'', raw_endpoint, ''/raw/f'')]
 \<and> prefix (root_path slash_endpoint) ''/raw/f''
 \<and> prefix (root_path raw_endpoint) ''/raw/f''"
  by (simp add: transfer_spot_to_data_Cons proj_defs strip_sep_def path_join_def
      slash_endpoint_def raw_endpoint_def)

text \<open>
  C6. The claim holds for a path that is already relative (see C7) and fails for the
  empty string: \<^verbatim>\<open>file_path[0]\<close> raises IndexError in both transfer tasks before any
  path is joined and before \<^verbatim>\<open>start_transfer\<close> is called. The flow reaches this
  with the input \<^verbatim>\<open>/global\<close>, whose relative path is empty.
\<close>

theorem empty_path_raises:
  "transfer_spot_to_data c [] src dst tr = (Inl IndexError, tr)
 \<and> transfer_data_to_nersc c [] src dst tr = (Inl IndexError, tr)
 \<and> relative_path_of ''/global'' = Inr []
 \<and> run_flow c config ''/global'' = (Inl IndexError, [])"
proof -
  have "relative_path_of ''/global'' = Inr []"
    by code_simp
  then show ?thesis
    by (simp add: transfer_spot_to_data_Nil transfer_data_to_nersc_Nil run_flow_def
        process_new_832_file_def bind_a_def lift_a_def)
qed

section \<open>Claims about the flow\<close>

text \<open>
  C8. A run that returns without an exception has made exactly two scheduling calls:
  the first for \<^verbatim>\<open>prune_spot832/prune_spot832\<close> with the delay
  \<^verbatim>\<open>delete_spot832_files_after_days\<close> of the loaded settings, the second for
  \<^verbatim>\<open>prune_data832/prune_data832\<close> with the delay
  \<^verbatim>\<open>delete_data832_files_after_days\<close>. Both carry the same relative path, the one
  line 117 produced, as their only parameter, and both were accepted.
\<close>

theorem successful_run_schedules_two_deletions:
  assumes "run_flow c config file_path = (Inr (), tr)"
  shows "\<exists>rp settings d1 d2.
      relative_path_of file_path = Inr rp
    \<and> settings_loads tr = [Inr settings]
    \<and> settings ''delete_spot832_files_after_days'' = Some d1
    \<and> settings ''delete_data832_files_after_days'' = Some d2
    \<and> schedule_calls tr =
        [(''prune_spot832/prune_spot832'', ''delete spot832: '' @ path_name file_path,
          [(''relative_path'', rp)], Timedelta d1),
         (''prune_data832/prune_data832'', ''delete data832: '' @ path_name file_path,
          [(''relative_path'', rp)], Timedelta d2)]
    \<and> schedule_results tr = [Inr (), Inr ()]"
proof -
  from run_success [OF assms] obtain ch rest o1 o2 token url response settings d1 d2
    where rp: "relative_path_of file_path = Inr (ch # rest)"
      and d1: "settings ''delete_spot832_files_after_days'' = Some d1"
      and d2: "settings ''delete_data832_files_after_days'' = Some d2"
      and tr: "tr =
        [StartTransfer (spot832 config)
           (path_join (root_path (spot832 config)) (strip_sep ch rest)) (data832 config)
           (path_join (root_path (data832 config)) (strip_sep ch rest)) 600 (Inr o1),
         StartTransfer (data832 config)
           (path_join (root_path (data832 config)) (strip_sep ch rest)) (nersc832 config)
           (path_join (root_path (nersc832 config)) (strip_sep ch rest)) 600 (Inr o2),
         SecretLoad ''scicat-token'' (Inr token),
         SubmitIngest url (path_join ''/data_mover/8.3.2'' (strip_sep ch rest)) token
           ''als832_dx_3'' (Inr response),
         JSONLoad ''bl832-settings'' (Inr settings),
         SchedulePrefectFlow ''prune_spot832/prune_spot832''
           (''delete spot832: '' @ path_name file_path)
           [(''relative_path'', ch # rest)] (Timedelta d1) (Inr ()),
         SchedulePrefectFlow ''prune_data832/prune_data832''
           (''delete data832: '' @ path_name file_path)
           [(''relative_path'', ch # rest)] (Timedelta d2) (Inr ())]"
    by blast
  have "settings_loads tr = [Inr settings]"
    unfolding tr by (simp add: proj_defs)
  moreover have "schedule_calls tr =
        [(''prune_spot832/prune_spot832'', ''delete spot832: '' @ path_name file_path,
          [(''relative_path'', ch # rest)], Timedelta d1),
         (''prune_data832/prune_data832'', ''delete data832: '' @ path_name file_path,
          [(''relative_path'', ch # rest)], Timedelta d2)]"
    unfolding tr by (simp add: proj_defs)
  moreover have "schedule_results tr = [Inr (), Inr ()]"
    unfolding tr by (simp add: proj_defs)
  ultimately show ?thesis using rp d1 d2 by blast
qed

theorem successful_run_schedules_two_deletions_witness:
  "fst (run_flow accepting sample_config ''/global/raw/sample1/scan0001.h5'') = Inr ()
 \<and> (\<exists>rp settings d1 d2.
      relative_path_of ''/global/raw/sample1/scan0001.h5'' = Inr rp
    \<and> settings_loads (snd (run_flow accepting sample_config ''/global/raw/sample1/scan0001.h5''))
        = [Inr settings]
    \<and> settings ''delete_spot832_files_after_days'' = Some d1
    \<and> settings ''delete_data832_files_after_days'' = Some d2
    \<and> schedule_calls (snd (run_flow accepting sample_config ''/global/raw/sample1/scan0001.h5'')) =
        [(''prune_spot832/prune_spot832'',
          ''delete spot832: '' @ path_name ''/global/raw/sample1/scan0001.h5'',
          [(''relative_path'', rp)], Timedelta d1),
         (''prune_data832/prune_data832'',
          ''delete data832: '' @ path_name ''/global/raw/sample1/scan0001.h5'',
          [(''relative_path'', rp)], Timedelta d2)]
    \<and> schedule_results (snd (run_flow accepting sample_config ''/global/raw/sample1/scan0001.h5''))
        = [Inr (), Inr ()])"
proof -
  have "run_flow accepting sample_config ''/global/raw/sample1/scan0001.h5''
      = (Inr (), snd (run_flow accepting sample_config ''/global/raw/sample1/scan0001.h5''))"
    by (simp add: run_accepting)
  from successful_run_schedules_two_deletions [OF this] show ?thesis
    by (simp add: run_accepting)
qed

text \<open>
  C1 fails on the code. With a first transfer that returns TimedOut and a second that
  returns Failed, the run on \<^verbatim>\<open>/global/raw/sample1/scan0001.h5\<close> goes on: the
  ingestion job is submitted, both deletions are scheduled, and the flow returns
  normally. The values the transfer tasks return are never looked at.
\<close>

theorem failed_transfers_do_not_halt:
  "fst (run_flow failing_transfers sample_config ''/global/raw/sample1/scan0001.h5'') = Inr ()
 \<and> transfer_results (snd (run_flow failing_transfers sample_config ''/global/raw/sample1/scan0001.h5''))
     = [Inr TimedOut, Inr (Failed ''PERMISSION_DENIED'')]
 \<and> ingest_calls (snd (run_flow failing_transfers sample_config ''/global/raw/sample1/scan0001.h5''))
     = [(''/data_mover/8.3.2/raw/sample1/scan0001.h5'', Inr ''accepted'')]
 \<and> schedule_calls (snd (run_flow failing_transfers sample_config ''/global/raw/sample1/scan0001.h5''))
     = [(''prune_spot832/prune_spot832'', ''delete spot832: scan0001.h5'',
         [(''relative_path'', ''/raw/sample1/scan0001.h5'')], Timedelta 14),
        (''prune_data832/prune_data832'', ''delete data832: scan0001.h5'',
         [(''relative_path'', ''/raw/sample1/scan0001.h5'')], Timedelta 30)]"
  by (simp add: run_failing_transfers proj_defs)

text \<open>
  C2, as the code has it. Take a run in which both transfers succeeded and the
  ingestion job was submitted. When the submission returned a response, whatever the
  response says, the run goes on: the settings are loaded next, and with the settings
  loaded, both retention values present and the instrument-tier value a valid day
  count, the first scheduling call is the one for the instrument tier with the
  instrument-tier retention; once that call has returned, and the facility-tier value
  is a valid day count, the second is the one for the facility tier with the
  facility-tier retention. When the submission raised, the run ends with that
  exception: the settings are not loaded and no scheduling call is made.
\<close>

theorem ingest_response_does_not_halt:
  assumes "run_flow c config file_path = (res, tr)"
    and "transfer_results tr = [Inr Succeeded, Inr Succeeded]"
    and "ingest_calls tr = [(ingest_path, answer)]"
  shows "(\<forall>e. answer = Inl e \<longrightarrow>
            res = Inl e \<and> settings_loads tr = [] \<and> schedule_calls tr = [])
       \<and> (\<forall>response. answer = Inr response \<longrightarrow>
            (\<exists>rp loaded. relative_path_of file_path = Inr rp
               \<and> settings_loads tr = [loaded]
               \<and> (\<forall>settings d1 d2.
                     loaded = Inr settings
                   \<and> settings ''delete_spot832_files_after_days'' = Some d1
                   \<and> settings ''delete_data832_files_after_days'' = Some d2
                   \<and> \<bar>d1\<bar> \<le> 999999999 \<longrightarrow>
                     (\<exists>accepted.
                         take 1 (schedule_calls tr) =
                           [(''prune_spot832/prune_spot832'',
                             ''delete spot832: '' @ path_name file_path,
                             [(''relative_path'', rp)], Timedelta d1)]
                       \<and> take 1 (schedule_results tr) = [accepted]
                       \<and> (accepted = Inr () \<and> \<bar>d2\<bar> \<le> 999999999 \<longrightarrow>
                            schedule_calls tr =
                              [(''prune_spot832/prune_spot832'',
                                ''delete spot832: '' @ path_name file_path,
                                [(''relative_path'', rp)], Timedelta d1),
                               (''prune_data832/prune_data832'',
                                ''delete data832: '' @ path_name file_path,
                                [(''relative_path'', rp)], Timedelta d2)])))))"
    (is "?raised \<and> ?returned")
proof (rule conjI)
  show ?raised
  proof (rule allI, rule impI)
    fix e
    assume "answer = Inl e"
    with assms(3) have "ingest_calls tr = [(ingest_path, Inl e)]" by simp
    from run_ingest_raised [OF assms(1) this]
    show "res = Inl e \<and> settings_loads tr = [] \<and> schedule_calls tr = []" .
  qed
next
  show ?returned
  proof (rule allI, rule impI)
    fix response
    assume "answer = Inr response"
    with assms(3) have "ingest_calls tr = [(ingest_path, Inr response)]" by simp
    from run_ingest_returned [OF assms(1) this]
    obtain rp loaded where rp: "relative_path_of file_path = Inr rp"
      and loaded: "settings_loads tr = [loaded]"
      by blast
    have "\<exists>accepted.
             take 1 (schedule_calls tr) =
               [(''prune_spot832/prune_spot832'',
                 ''delete spot832: '' @ path_name file_path,
                 [(''relative_path'', rp)], Timedelta d1)]
           \<and> take 1 (schedule_results tr) = [accepted]
           \<and> (accepted = Inr () \<and> \<bar>d2\<bar> \<le> 999999999 \<longrightarrow>
                schedule_calls tr =
                  [(''prune_spot832/prune_spot832'',
                    ''delete spot832: '' @ path_name file_path,
                    [(''relative_path'', rp)], Timedelta d1),
                   (''prune_data832/prune_data832'',
                    ''delete data832: '' @ path_name file_path,
                    [(''relative_path'', rp)], Timedelta d2)])"
      if "loaded = Inr settings
        \<and> settings ''delete_spot832_files_after_days'' = Some d1
        \<and> settings ''delete_data832_files_after_days'' = Some d2
        \<and> \<bar>d1\<bar> \<le> 999999999"
      for settings d1 d2
    proof -
      from that loaded have "settings_loads tr = [Inr settings]"
        and "settings ''delete_spot832_files_after_days'' = Some d1"
        and "settings ''delete_data832_files_after_days'' = Some d2"
        and "\<bar>d1\<bar> \<le> 999999999"
        by simp_all
      from run_settings_loaded [OF assms(1) rp this] show ?thesis .
    qed
    with rp loaded
    show "\<exists>rp loaded. relative_path_of file_path = Inr rp
               \<and> settings_loads tr = [loaded]
               \<and> (\<forall>settings d1 d2.
                     loaded = Inr settings
                   \<and> settings ''delete_spot832_files_after_days'' = Some d1
                   \<and> settings ''delete_data832_files_after_days'' = Some d2
                   \<and> \<bar>d1\<bar> \<le> 999999999 \<longrightarrow>
                     (\<exists>accepted.
                         take 1 (schedule_calls tr) =
                           [(''prune_spot832/prune_spot832'',
                             ''delete spot832: '' @ path_name file_path,
                             [(''relative_path'', rp)], Timedelta d1)]
                       \<and> take 1 (schedule_results tr) = [accepted]
                       \<and> (accepted = Inr () \<and> \<bar>d2\<bar> \<le> 999999999 \<longrightarrow>
                            schedule_calls tr =
                              [(''prune_spot832/prune_spot832'',
                                ''delete spot832: '' @ path_name file_path,
                                [(''relative_path'', rp)], Timedelta d1),
                               (''prune_data832/prune_data832'',
                                ''delete data832: '' @ path_name file_path,
                                [(''relative_path'', rp)], Timedelta d2)])))"
      by blast
  qed
qed

theorem ingest_response_does_not_halt_witness:
  "transfer_results (snd (run_flow rejecting_ingest sample_config ''/global/raw/sample1/scan0001.h5''))
     = [Inr Succeeded, Inr Succeeded]
 \<and> ingest_calls (snd (run_flow rejecting_ingest sample_config ''/global/raw/sample1/scan0001.h5''))
     = [(''/data_mover/8.3.2/raw/sample1/scan0001.h5'', Inr ''500 Internal Server Error'')]
 \<and> settings_loads (snd (run_flow rejecting_ingest sample_config ''/global/raw/sample1/scan0001.h5''))
     = [Inr sample_settings]
 \<and> (\<exists>rp. relative_path_of ''/global/raw/sample1/scan0001.h5'' = Inr rp
     \<and> schedule_calls (snd (run_flow rejecting_ingest sample_config ''/global/raw/sample1/scan0001.h5''))
         = [(''prune_spot832/prune_spot832'',
             ''delete spot832: '' @ path_name ''/global/raw/sample1/scan0001.h5'',
             [(''relative_path'', rp)], Timedelta 14),
            (''prune_data832/prune_data832'',
             ''delete data832: '' @ path_name ''/global/raw/sample1/scan0001.h5'',
             [(''relative_path'', rp)], Timedelta 30)])"
proof -
  let ?tr = "snd (run_flow rejecting_ingest sample_config ''/global/raw/sample1/scan0001.h5'')"
  have run: "run_flow rejecting_ingest sample_config ''/global/raw/sample1/scan0001.h5''
      = (Inr (), ?tr)"
    by (simp add: run_rejecting_ingest)
  have t: "transfer_results ?tr = [Inr Succeeded, Inr Succeeded]"
    by (simp add: run_rejecting_ingest proj_defs)
  have i: "ingest_calls ?tr
      = [(''/data_mover/8.3.2/raw/sample1/scan0001.h5'', Inr ''500 Internal Server Error'')]"
    by (simp add: run_rejecting_ingest proj_defs)
  have s: "settings_loads ?tr = [Inr sample_settings]"
    by (simp add: run_rejecting_ingest proj_defs)
  have r: "take 1 (schedule_results ?tr) = [Inr ()]"
    by (simp add: run_rejecting_ingest proj_defs)
  note returned =
    ingest_response_does_not_halt [OF run t i, THEN conjunct2, THEN spec, THEN mp, OF refl]
  from returned show ?thesis
  proof (elim exE conjE)
    fix rp loaded
    assume rp: "relative_path_of ''/global/raw/sample1/scan0001.h5'' = Inr rp"
      and l: "settings_loads ?tr = [loaded]"
      and rest: "\<forall>settings d1 d2.
         loaded = Inr settings
       \<and> settings ''delete_spot832_files_after_days'' = Some d1
       \<and> settings ''delete_data832_files_after_days'' = Some d2
       \<and> \<bar>d1\<bar> \<le> 999999999 \<longrightarrow>
         (\<exists>accepted.
             take 1 (schedule_calls ?tr) =
               [(''prune_spot832/prune_spot832'',
                 ''delete spot832: '' @ path_name ''/global/raw/sample1/scan0001.h5'',
                 [(''relative_path'', rp)], Timedelta d1)]
           \<and> take 1 (schedule_results ?tr) = [accepted]
           \<and> (accepted = Inr () \<and> \<bar>d2\<bar> \<le> 999999999 \<longrightarrow>
                schedule_calls ?tr =
                  [(''prune_spot832/prune_spot832'',
                    ''delete spot832: '' @ path_name ''/global/raw/sample1/scan0001.h5'',
                    [(''relative_path'', rp)], Timedelta d1),
                   (''prune_data832/prune_data832'',
                    ''delete data832: '' @ path_name ''/global/raw/sample1/scan0001.h5'',
                    [(''relative_path'', rp)], Timedelta d2)]))"
    from l s have "loaded = Inr sample_settings
         \<and> sample_settings ''delete_spot832_files_after_days'' = Some 14
         \<and> sample_settings ''delete_data832_files_after_days'' = Some 30
         \<and> \<bar>14::int\<bar> \<le> 999999999"
      by (simp add: sample_settings_def)
    note scheduled =
      rest [THEN spec [of _ sample_settings], THEN spec [of _ 14], THEN spec [of _ 30],
        THEN mp, OF this]
    from scheduled have sc: "schedule_calls ?tr =
            [(''prune_spot832/prune_spot832'',
              ''delete spot832: '' @ path_name ''/global/raw/sample1/scan0001.h5'',
              [(''relative_path'', rp)], Timedelta 14),
             (''prune_data832/prune_data832'',
              ''delete data832: '' @ path_name ''/global/raw/sample1/scan0001.h5'',
              [(''relative_path'', rp)], Timedelta 30)]"
    proof (elim exE conjE)
      fix accepted
      assume a: "take 1 (schedule_results ?tr) = [accepted]"
        and both: "accepted = Inr () \<and> \<bar>30::int\<bar> \<le> 999999999 \<longrightarrow>
            schedule_calls ?tr =
            [(''prune_spot832/prune_spot832'',
              ''delete spot832: '' @ path_name ''/global/raw/sample1/scan0001.h5'',
              [(''relative_path'', rp)], Timedelta 14),
             (''prune_data832/prune_data832'',
              ''delete data832: '' @ path_name ''/global/raw/sample1/scan0001.h5'',
              [(''relative_path'', rp)], Timedelta 30)]"
      from a r have "accepted = Inr () \<and> \<bar>30::int\<bar> \<le> 999999999" by simp
      with both show ?thesis by (rule mp)
    qed
    from rp sc have "relative_path_of ''/global/raw/sample1/scan0001.h5'' = Inr rp
       \<and> schedule_calls ?tr =
            [(''prune_spot832/prune_spot832'',
              ''delete spot832: '' @ path_name ''/global/raw/sample1/scan0001.h5'',
              [(''relative_path'', rp)], Timedelta 14),
             (''prune_data832/prune_data832'',
              ''delete data832: '' @ path_name ''/global/raw/sample1/scan0001.h5'',
              [(''relative_path'', rp)], Timedelta 30)]" ..
    then have "\<exists>rp. relative_path_of ''/global/raw/sample1/scan0001.h5'' = Inr rp
       \<and> schedule_calls ?tr =
            [(''prune_spot832/prune_spot832'',
              ''delete spot832: '' @ path_name ''/global/raw/sample1/scan0001.h5'',
              [(''relative_path'', rp)], Timedelta 14),
             (''prune_data832/prune_data832'',
              ''delete data832: '' @ path_name ''/global/raw/sample1/scan0001.h5'',
              [(''relative_path'', rp)], Timedelta 30)]" ..
    with t i s show ?thesis by (intro conjI)
  qed
qed

text \<open>
  C2, as the claim states it, fails when the submission fails by raising: both
  transfers succeeded, the exception of \<^verbatim>\<open>submit_ingest\<close> ends the run, and no
  scheduling call is made.
\<close>

theorem ingest_exception_counterexample:
  "transfer_results (snd (run_flow raising_ingest sample_config ''/global/raw/sample1/scan0001.h5''))
     = [Inr Succeeded, Inr Succeeded]
 \<and> ingest_calls (snd (run_flow raising_ingest sample_config ''/global/raw/sample1/scan0001.h5''))
     = [(''/data_mover/8.3.2/raw/sample1/scan0001.h5'', Inl (Raised ''IngestSubmitError''))]
 \<and> schedule_calls (snd (run_flow raising_ingest sample_config ''/global/raw/sample1/scan0001.h5''))
     = []
 \<and> fst (run_flow raising_ingest sample_config ''/global/raw/sample1/scan0001.h5'')
     = Inl (Raised ''IngestSubmitError'')"
  by (simp add: run_raising_ingest proj_defs)

text \<open>
  C5, as the code has it. On \<^verbatim>\<open>/global/raw/sample1/scan0001.h5\<close> line 117 gives
  \<^verbatim>\<open>/raw/sample1/scan0001.h5\<close>, with its leading separator. Each task strips that
  separator for itself: the requests of the run are, in order, the instrument-to-facility
  transfer and the facility-to-archive transfer, each between the joins of the endpoint
  roots with \<^verbatim>\<open>raw/sample1/scan0001.h5\<close>, the first of them always issued; every
  ingestion job is submitted with \<^verbatim>\<open>/data_mover/8.3.2/raw/sample1/scan0001.h5\<close>;
  and a run that returns has issued both requests and one ingestion job.
\<close>

theorem scan_file_paths:
  assumes "run_flow c config ''/global/raw/sample1/scan0001.h5'' = (res, tr)"
  shows "relative_path_of ''/global/raw/sample1/scan0001.h5'' = Inr ''/raw/sample1/scan0001.h5''
       \<and> transfer_requests tr \<noteq> []
       \<and> prefix (transfer_requests tr)
           [(spot832 config, path_join (root_path (spot832 config)) ''raw/sample1/scan0001.h5'',
             data832 config, path_join (root_path (data832 config)) ''raw/sample1/scan0001.h5''),
            (data832 config, path_join (root_path (data832 config)) ''raw/sample1/scan0001.h5'',
             nersc832 config, path_join (root_path (nersc832 config)) ''raw/sample1/scan0001.h5'')]
       \<and> (\<forall>x \<in> set (ingest_calls tr). fst x = ''/data_mover/8.3.2/raw/sample1/scan0001.h5'')
       \<and> (res = Inr () \<longrightarrow>
            transfer_requests tr =
              [(spot832 config, path_join (root_path (spot832 config)) ''raw/sample1/scan0001.h5'',
                data832 config, path_join (root_path (data832 config)) ''raw/sample1/scan0001.h5''),
               (data832 config, path_join (root_path (data832 config)) ''raw/sample1/scan0001.h5'',
                nersc832 config, path_join (root_path (nersc832 config)) ''raw/sample1/scan0001.h5'')]
          \<and> map fst (ingest_calls tr) = [''/data_mover/8.3.2/raw/sample1/scan0001.h5''])"
proof -
  have rp: "relative_path_of ''/global/raw/sample1/scan0001.h5''
      = Inr (CHR ''/'' # ''raw/sample1/scan0001.h5'')"
    using rel_scan by simp
  have st: "strip_sep CHR ''/'' ''raw/sample1/scan0001.h5'' = ''raw/sample1/scan0001.h5''"
    by (simp add: strip_sep_def)
  note shape = run_shape [OF rp assms, unfolded st join_scan]
  have "transfer_requests tr =
          [(spot832 config, path_join (root_path (spot832 config)) ''raw/sample1/scan0001.h5'',
            data832 config, path_join (root_path (data832 config)) ''raw/sample1/scan0001.h5''),
           (data832 config, path_join (root_path (data832 config)) ''raw/sample1/scan0001.h5'',
            nersc832 config, path_join (root_path (nersc832 config)) ''raw/sample1/scan0001.h5'')]
      \<and> map fst (ingest_calls tr) = [''/data_mover/8.3.2/raw/sample1/scan0001.h5'']"
    if "res = Inr ()"
  proof -
    from assms that have "run_flow c config ''/global/raw/sample1/scan0001.h5'' = (Inr (), tr)"
      by simp
    from run_success [OF this] rp show ?thesis
      by (auto simp: proj_defs st join_scan)
  qed
  with shape rel_scan show ?thesis by blast
qed

theorem scan_file_paths_witness:
  "transfer_requests (snd (run_flow accepting sample_config ''/global/raw/sample1/scan0001.h5''))
     = [(spot832 sample_config, ''/spot/raw/sample1/scan0001.h5'',
         data832 sample_config, ''/data/raw/sample1/scan0001.h5''),
        (data832 sample_config, ''/data/raw/sample1/scan0001.h5'',
         nersc832 sample_config, ''/nersc/8.3.2/raw/sample1/scan0001.h5'')]
 \<and> map fst (ingest_calls (snd (run_flow accepting sample_config ''/global/raw/sample1/scan0001.h5'')))
     = [''/data_mover/8.3.2/raw/sample1/scan0001.h5'']"
proof -
  have "run_flow accepting sample_config ''/global/raw/sample1/scan0001.h5''
      = (Inr (), snd (run_flow accepting sample_config ''/global/raw/sample1/scan0001.h5''))"
    by (simp add: run_accepting)
  from scan_file_paths [OF this] show ?thesis
    by (simp add: sample_config_def path_join_def suffix_sep)
qed

text \<open>
  C5, as the claim states it, fails in its first part: the relative path the run
  produces, and hands to both deletion jobs, is \<^verbatim>\<open>/raw/sample1/scan0001.h5\<close>, not
  \<^verbatim>\<open>raw/sample1/scan0001.h5\<close>.
\<close>

theorem scan_relative_path_counterexample:
  "relative_path_of ''/global/raw/sample1/scan0001.h5'' \<noteq> Inr ''raw/sample1/scan0001.h5''
 \<and> map (\<lambda>(deployment, flow_name, params, delay). params)
      (schedule_calls (snd (run_flow accepting sample_config ''/global/raw/sample1/scan0001.h5'')))
     = [[(''relative_path'', ''/raw/sample1/scan0001.h5'')],
        [(''relative_path'', ''/raw/sample1/scan0001.h5'')]]"
  by (simp add: rel_scan run_accepting proj_defs)

end
